theory Spec2Isabelle
  imports Main "HOL-Library.Word" "HOL-Library.Signed_Division"
begin

section \<open>simply/threading.h: platforms, errors and OS calls\<close>

text \<open>
  The header selects one of two implementations with the preprocessor
  (\<open>#if SIMPLY_WINDOWS ... #elif SIMPLY_LINUX\<close>).  The branch taken is a
  parameter of every function that has two bodies.
\<close>

datatype platform = Windows | Linux

text \<open>\<open>using ms_type = uint32_t\<close>; \<open>DWORD\<close> is the 32-bit unsigned integer of the
  Windows API.\<close>

type_synonym ms_type = "32 word"
type_synonym DWORD = "32 word"

text \<open>
  Every \<open>throw\<close> of the header raises \<open>std::system_error\<close>: either
  \<open>std::make_error_code(std::errc::invalid_argument)\<close> together with a message, or
  the value of \<open>GetLastError()\<close> in \<open>std::system_category()\<close>.
\<close>

datatype error_code = invalid_argument | system_category DWORD

datatype error = system_error error_code string

text \<open>\<open>struct timespec\<close> as \<open>nanosleep\<close> receives it (\<open>time_t\<close> and \<open>long\<close> are
  64-bit on Linux).\<close>

record timespec =
  tv_sec :: "64 word"
  tv_nsec :: "64 word"

text \<open>
  The operating-system calls the functions below end in.  A function that
  returns \<open>Inr c\<close> issued exactly the call \<open>c\<close>; one that returns \<open>Inl e\<close> threw
  \<open>e\<close> before any call was made.  \<open>pthread_setname_np\<close> receives the
  pointer \<open>name.c_str()\<close>; the argument stored here is the character array behind
  that pointer.
\<close>

datatype os_call =
    Sleep DWORD
  | nanosleep timespec
  | pthread_setname_np string

text \<open>The effect of a function on a world \<open>'w\<close>, for any meaning \<open>os\<close> of the OS calls:
  nothing happens when the function threw.\<close>

fun effect :: "(os_call \<Rightarrow> 'w \<Rightarrow> 'w) \<Rightarrow> error + os_call \<Rightarrow> 'w \<Rightarrow> 'w" where
  "effect os (Inl e) w = w"
| "effect os (Inr c) w = os c w"

section \<open>Thread::id\<close>

text \<open>
  \<open>class id\<close> has the single private member \<open>native_id_type id_\<close>, a \<open>DWORD\<close> on
  Windows and a \<open>pthread_t\<close> (an unsigned integer) on Linux.  The native type
  \<open>'a\<close> is left open: \<open>32 word\<close> for \<open>DWORD\<close>, \<open>64 word\<close> for \<open>pthread_t\<close>.
\<close>

datatype 'a id = Thread_id (id_val: 'a)

text \<open>\<open>Thread::id::id() noexcept: id_(0) {}\<close>\<close>

definition id_default :: "'a::zero id" where
  "id_default = Thread_id 0"

text \<open>\<open>bool operator==(Thread::id lhs, Thread::id rhs)\<close> and, before C++20, the five
  other comparison operators, each written out on \<open>id_\<close> (the selector \<open>id_val\<close>: a name cannot end in an underscore).\<close>

definition id_eq :: "'a::linorder id \<Rightarrow> 'a id \<Rightarrow> bool" where
  "id_eq lhs rhs = (id_val lhs = id_val rhs)"

definition id_ne :: "'a::linorder id \<Rightarrow> 'a id \<Rightarrow> bool" where
  "id_ne lhs rhs = (id_val lhs \<noteq> id_val rhs)"

definition id_gt :: "'a::linorder id \<Rightarrow> 'a id \<Rightarrow> bool" where
  "id_gt lhs rhs = (id_val lhs > id_val rhs)"

definition id_lt :: "'a::linorder id \<Rightarrow> 'a id \<Rightarrow> bool" where
  "id_lt lhs rhs = (id_val lhs < id_val rhs)"

definition id_le :: "'a::linorder id \<Rightarrow> 'a id \<Rightarrow> bool" where
  "id_le lhs rhs = (id_val lhs \<le> id_val rhs)"

definition id_ge :: "'a::linorder id \<Rightarrow> 'a id \<Rightarrow> bool" where
  "id_ge lhs rhs = (id_val lhs \<ge> id_val rhs)"

text \<open>
  These five are the \<open>#else\<close> branch of \<open>#if SIMPLY_std20plus\<close>.  From C++20 on the
  header declares \<open>friend std::strong_ordering operator<=>(id lhs, id rhs)\<close> in their
  place and defines, outside the class,
  \<open>bool operator<=>(Thread::id lhs, Thread::id rhs) noexcept { return lhs.id_ <=> rhs.id_; }\<close>.
  The definition differs from the declaration in its return type alone, and its body
  returns a \<open>std::strong_ordering\<close>, which does not convert to \<open>bool\<close>: the branch is
  ill-formed, so it defines no function and has no model here.
\<close>

section \<open>Thread::Priority and this_thread::get_priority (Windows)\<close>

text \<open>
  The \<open>THREAD_PRIORITY_*\<close> macros come from \<open>windows.h\<close>, which the header
  includes and the repository does not contain; they are parameters of the model.
  \<open>winbase\<close> below gives them the values of the Windows SDK.  The type is
  \<open>int\<close>, read as a signed 32-bit integer.
\<close>

record priority_macros =
  THREAD_PRIORITY_ERROR_RETURN :: "32 word"
  THREAD_PRIORITY_IDLE :: "32 word"
  THREAD_PRIORITY_LOWEST :: "32 word"
  THREAD_PRIORITY_BELOW_NORMAL :: "32 word"
  THREAD_PRIORITY_NORMAL :: "32 word"
  THREAD_PRIORITY_ABOVE_NORMAL :: "32 word"
  THREAD_PRIORITY_HIGHEST :: "32 word"
  THREAD_PRIORITY_TIME_CRITICAL :: "32 word"

definition winbase :: priority_macros where
  "winbase = \<lparr>
     THREAD_PRIORITY_ERROR_RETURN = 0x7FFFFFFF,
     THREAD_PRIORITY_IDLE = - 15,
     THREAD_PRIORITY_LOWEST = - 2,
     THREAD_PRIORITY_BELOW_NORMAL = - 1,
     THREAD_PRIORITY_NORMAL = 0,
     THREAD_PRIORITY_ABOVE_NORMAL = 1,
     THREAD_PRIORITY_HIGHEST = 2,
     THREAD_PRIORITY_TIME_CRITICAL = 15 \<rparr>"

text \<open>\<open>enum Priority\<close> and the value each enumerator is declared with.\<close>

datatype Priority = IDLE | LOWEST | LOW | NORMAL | HIGH | HIGHEST | TIME_CRITICAL

fun priority_value :: "priority_macros \<Rightarrow> Priority \<Rightarrow> 32 word" where
  "priority_value m IDLE = THREAD_PRIORITY_IDLE m"
| "priority_value m LOWEST = THREAD_PRIORITY_LOWEST m"
| "priority_value m LOW = THREAD_PRIORITY_BELOW_NORMAL m"
| "priority_value m NORMAL = THREAD_PRIORITY_NORMAL m"
| "priority_value m HIGH = THREAD_PRIORITY_ABOVE_NORMAL m"
| "priority_value m HIGHEST = THREAD_PRIORITY_HIGHEST m"
| "priority_value m TIME_CRITICAL = THREAD_PRIORITY_TIME_CRITICAL m"

text \<open>
  \<open>this_thread::get_priority\<close>: \<open>p\<close> is what \<open>GetThreadPriority(GetCurrentThread())\<close>
  returned and \<open>last_error\<close> what \<open>GetLastError()\<close> would return.  The \<open>switch\<close>
  is the chain of its cases in source order; the error thrown carries no message.
\<close>

definition get_priority :: "priority_macros \<Rightarrow> 32 word \<Rightarrow> DWORD \<Rightarrow> error + Priority" where
  "get_priority m p last_error =
     (if p = THREAD_PRIORITY_ERROR_RETURN m then Inl (system_error (system_category last_error) [])
      else if p = THREAD_PRIORITY_IDLE m then Inr IDLE
      else if p = THREAD_PRIORITY_LOWEST m then Inr LOWEST
      else if p = THREAD_PRIORITY_BELOW_NORMAL m then Inr LOW
      else if p = THREAD_PRIORITY_NORMAL m then Inr NORMAL
      else if p = THREAD_PRIORITY_ABOVE_NORMAL m then Inr HIGH
      else if p = THREAD_PRIORITY_HIGHEST m then Inr HIGHEST
      else if p = THREAD_PRIORITY_TIME_CRITICAL m then Inr TIME_CRITICAL
      else if p <s 0 then Inr IDLE
      else Inr TIME_CRITICAL)"

section \<open>Thread::max_sleep and this_thread::sleep\<close>

text \<open>\<open>Thread::max_sleep\<close>: \<open>std::numeric_limits<DWORD>::max() - 1\<close> on Windows,
  \<open>std::numeric_limits<uint32_t>::max()\<close> on Linux.\<close>

definition max_sleep :: "platform \<Rightarrow> ms_type" where
  "max_sleep pf = (case pf of Windows \<Rightarrow> 0xFFFFFFFF - 1 | Linux \<Rightarrow> 0xFFFFFFFF)"

text \<open>
  \<open>this_thread::sleep(ms_type ms_sleep)\<close>.  The Windows body compares with
  \<open>std::numeric_limits<DWORD>::max()\<close> and calls \<open>Sleep(ms_sleep)\<close>; the Linux body
  compares with \<open>Thread::max_sleep()\<close>, fills a \<open>timespec\<close> with
  \<open>tv_nsec = (ms_sleep % 1000000) * 1000\<close> and \<open>tv_sec = ms_sleep / 1000\<close> (both
  computed in \<open>uint32_t\<close>, then widened) and calls \<open>nanosleep\<close>, whose result it
  ignores.
\<close>

definition sleep :: "platform \<Rightarrow> ms_type \<Rightarrow> error + os_call" where
  "sleep pf ms_sleep =
     (case pf of
        Windows \<Rightarrow>
          if ms_sleep > 0xFFFFFFFF
          then Inl (system_error invalid_argument
                 ''this_thread::sleep: Windows implementation does not permit 0xFFFFFFFF!'')
          else Inr (Sleep ms_sleep)
      | Linux \<Rightarrow>
          if ms_sleep > max_sleep Linux
          then Inl (system_error invalid_argument
                 ''this_thread::sleep: Too long a period to sleep for!'')
          else Inr (nanosleep \<lparr> tv_sec = ucast (ms_sleep div 1000),
                                 tv_nsec = ucast ((ms_sleep mod 1000000) * 1000) \<rparr>))"

section \<open>this_thread::sleep_for and this_thread::sleep_until\<close>

text \<open>
  A \<open>std::chrono::duration<Rep, Period>\<close> with an integer \<open>Rep\<close> of at most 64 bits:
  a count of ticks of \<open>period_num / period_den\<close> seconds each.  \<open>unsigned_rep\<close> says
  that \<open>Rep\<close> is an unsigned type of 64 bits, the one case in which the library
  computes with unsigned numbers.  Only the count modulo \<open>2 ^ 64\<close> matters below.
\<close>

record duration =
  count :: int
  period_num :: nat
  period_den :: nat
  unsigned_rep :: bool

text \<open>Division of two signed 64-bit integers, truncated towards zero as in C++.\<close>

definition signed_div :: "64 word \<Rightarrow> 64 word \<Rightarrow> 64 word" where
  "signed_div a b = word_of_int (sint a sdiv sint b)"

text \<open>
  \<open>std::chrono::duration_cast<std::chrono::milliseconds>(d).count()\<close>, a signed 64-bit
  integer.  The library reduces the ratio of the two periods to \<open>cf_num / cf_den\<close> and
  computes \<open>count * cf_num / cf_den\<close> in the common type of \<open>Rep\<close>, the 64-bit \<open>rep\<close>
  of \<open>milliseconds\<close> and \<open>intmax_t\<close>: 64 bits, unsigned exactly when \<open>Rep\<close> is.  The
  product wraps around modulo \<open>2 ^ 64\<close>; the quotient is truncated.  (A period whose
  denominator is zero, or whose reduced ratio does not fit \<open>intmax_t\<close>, is refused by
  \<open>std::ratio\<close> when the program is compiled.)
\<close>

definition duration_cast_ms :: "duration \<Rightarrow> 64 word" where
  "duration_cast_ms d =
     (let g = gcd (period_num d * 1000) (period_den d);
          cf_num = (period_num d * 1000) div g;
          cf_den = period_den d div g;
          product = word_of_int (count d) * of_nat cf_num
      in if unsigned_rep d then product div of_nat cf_den
         else signed_div product (of_nat cf_den))"

text \<open>
  \<open>this_thread::sleep_for(rel_time)\<close>: \<open>ms\<close> is compared with \<open>0\<close> and with
  \<open>std::numeric_limits<ms_type>::max()\<close> as a signed 64-bit integer, then
  \<open>static_cast<ms_type>(ms)\<close>, its low 32 bits, is handed to \<open>sleep\<close>.
\<close>

definition sleep_for :: "platform \<Rightarrow> duration \<Rightarrow> error + os_call" where
  "sleep_for pf rel_time =
     (let ms = duration_cast_ms rel_time in
      if ms <s 0 \<or> 4294967295 <s ms
      then Inl (system_error invalid_argument
             ''this_thread::sleep_for: Value was negative or too large!'')
      else sleep pf (ucast ms))"

text \<open>
  The difference of two time points of one clock is a duration in the common type of
  their two durations: the period is the greatest common divisor of the two periods
  and each count is rescaled to it (exactly); the common \<open>Rep\<close> is unsigned when
  one of the two is.
\<close>

definition rescale :: "duration \<Rightarrow> nat \<Rightarrow> nat \<Rightarrow> int" where
  "rescale d n m = count d * int ((period_num d div n) * (m div period_den d))"

definition time_point_minus :: "duration \<Rightarrow> duration \<Rightarrow> duration" where
  "time_point_minus a b =
     (let n = gcd (period_num a) (period_num b); m = lcm (period_den a) (period_den b)
      in \<lparr> count = rescale a n m - rescale b n m, period_num = n, period_den = m,
           unsigned_rep = (unsigned_rep a \<or> unsigned_rep b) \<rparr>)"

text \<open>
  \<open>this_thread::sleep_until(abs_time)\<close> is
  \<open>this_thread::sleep_for(abs_time - Clock::now())\<close>.  A time point is its duration
  since the clock's epoch; \<open>now\<close> is what \<open>Clock::now()\<close> returns when the call
  evaluates it.
\<close>

definition sleep_until :: "platform \<Rightarrow> duration \<Rightarrow> duration \<Rightarrow> error + os_call" where
  "sleep_until pf now abs_time = sleep_for pf (time_point_minus abs_time now)"

section \<open>this_thread::set_name (Linux)\<close>

text \<open>\<open>name.c_str()\<close> points to the characters of \<open>name\<close> followed by a null
  character.\<close>

definition NUL :: char where
  "NUL = CHR 0x00"

definition c_str :: "string \<Rightarrow> string" where
  "c_str name = name @ [NUL]"

text \<open>
  The \<open>#elif SIMPLY_LINUX\<close> body of \<open>this_thread::set_name\<close>: the length check,
  then \<open>pthread_setname_np(pthread_self(), name.c_str())\<close>, whose result is
  ignored.
\<close>

definition set_name :: "string \<Rightarrow> error + os_call" where
  "set_name name =
     (if length name > 15
      then Inl (system_error invalid_argument
             ''this_thread::set_name: Linux only supports 15 chars followed by NULL for name'')
      else Inr (pthread_setname_np (c_str name)))"


section \<open>this_thread::to_wide and this_thread::from_wide (Windows)\<close>























section \<open>class Thread: ownership, joining and stop requests\<close>

text \<open>
  Modelled from the spec: the lifecycle members of \<open>class Thread\<close> (constructors,
  destructor, \<open>joinable\<close>, \<open>join\<close>, stop requests) are not in the header under
  \<open>src/\<close>, whose \<open>Thread\<close> declares only \<open>max_sleep\<close>, \<open>id\<close> and \<open>Priority\<close>.  The
  spec calls \<open>Thread\<close> a handle with "auto-join-on-destruction"; the tests use the
  members.  A \<open>Thread\<close> owns at most one thread of execution, by its native handle.
\<close>

record 'h Thread =
  handle :: "'h option"

text \<open>Modelled from the spec: the default constructor, absent from \<open>src/\<close>; a
  default-constructed \<open>Thread\<close> owns nothing (\<open>TEST(Thread, Null)\<close>).\<close>

definition Thread_default :: "'h Thread" where
  "Thread_default = \<lparr> handle = None \<rparr>"

text \<open>Modelled from the spec: \<open>Thread::joinable\<close>, absent from \<open>src/\<close>; true exactly
  when the object owns a thread of execution.\<close>

definition joinable :: "'h Thread \<Rightarrow> bool" where
  "joinable t = (handle t \<noteq> None)"

text \<open>
  Modelled from the spec: threads of execution belong to the OS scheduler, which the
  spec treats as an external collaborator.  The world records for every handle the
  steps its thread of execution still has to run (\<open>0\<close>: it has completed) and whether
  the program was terminated.
\<close>

record 'h world =
  work :: "'h \<Rightarrow> nat"
  terminated :: bool

text \<open>Modelled from the spec: the passing of time under the OS scheduler, the spec's
  external collaborator; in one \<open>tick\<close> every running thread runs one step.\<close>

definition tick :: "'h world \<Rightarrow> 'h world" where
  "tick w = w\<lparr> work := \<lambda>h. work w h - 1 \<rparr>"

text \<open>Modelled from the spec: the blocking inside \<open>Thread::join\<close>, absent from
  \<open>src/\<close>; the caller waits, tick by tick, while the thread of execution \<open>h\<close> has
  steps left.\<close>

function wait :: "'h \<Rightarrow> 'h world \<Rightarrow> 'h world" where
  "wait h w = (if work w h = 0 then w else wait h (tick w))"
  by pat_completeness auto
termination
  by (relation "measure (\<lambda>(h, w). work w h)") (auto simp: tick_def)

declare wait.simps [simp del]

text \<open>Modelled from the spec: \<open>Thread::join\<close>, absent from \<open>src/\<close>.  It waits for
  the owned thread of execution, after which the \<open>Thread\<close> owns nothing; on a
  \<open>Thread\<close> that owns nothing it throws \<open>std::system_error\<close>
  (\<open>TEST(Thread, Null)\<close>), here \<open>None\<close>.\<close>

definition join :: "'h Thread \<Rightarrow> 'h world \<Rightarrow> ('h Thread \<times> 'h world) option" where
  "join t w = (case handle t of None \<Rightarrow> None | Some h \<Rightarrow> Some (Thread_default, wait h w))"

text \<open>Modelled from the spec: the destructor \<open>~Thread\<close>, absent from \<open>src/\<close>:
  "auto-join-on-destruction"; in the README's words it "calls join if joinable
  instead of terminating the program".\<close>

definition destroy :: "'h Thread \<Rightarrow> 'h world \<Rightarrow> 'h world" where
  "destroy t w =
     (if joinable t then (case join t w of None \<Rightarrow> w | Some (t', w') \<Rightarrow> w') else w)"

text \<open>
  A callable with a cooperative loop: it takes a \<open>std::stop_token token\<close> and runs
  \<open>while ( !token.stop_requested() ) body; rest\<close>
  over its variables \<open>'s\<close> (what it captured and its locals).  \<open>loop_body\<close> is one
  pass through the body and \<open>after_loop\<close> the statements after the loop; both end,
  and neither touches the stop state.  This is the shape of the lambda of
  \<open>TEST(Thread, StopToken)\<close> and of \<open>long_loop\<close> in the README.
\<close>

record 's callable =
  loop_body :: "'s \<Rightarrow> 's"
  after_loop :: "'s \<Rightarrow> 's"

text \<open>
  The lambda of \<open>TEST(Thread, StopToken)\<close>,
  \<open>while ( !token.stop_requested() ) this_thread::sleep(10); stopped = true;\<close>
  Its one variable is the captured \<open>bool stopped\<close>: the sleep leaves it as it is,
  the assignment after the loop sets it.
\<close>

definition stoppable :: "bool callable" where
  "stoppable = \<lparr> loop_body = (\<lambda>stopped. stopped), after_loop = (\<lambda>stopped. True) \<rparr>"

text \<open>The program points of such a callable: the loop test, the body, the statements
  after the loop, and the return.\<close>

datatype program_point = at_test | at_body | at_rest | at_return

text \<open>
  Modelled from the spec: the stop state behind \<open>Thread::request_stop\<close>,
  \<open>Thread::get_stop_source\<close> and \<open>Thread::get_stop_token\<close>, absent from \<open>src/\<close>
  ("optional cooperative stop signaling"): one flag \<open>stop_state\<close> shared by the
  \<open>Thread\<close>, its stop source and its tokens.  An execution holds the owning
  \<open>Thread\<close>, that flag, and the program point and variables of the callable.
\<close>

record ('h, 's) execution =
  owner :: "'h Thread"
  stop_state :: bool
  pc :: program_point
  vars :: 's

text \<open>Modelled from the spec: \<open>token.stop_requested()\<close>, absent from \<open>src/\<close>, reads
  the shared flag.\<close>

definition stop_requested :: "('h, 's) execution \<Rightarrow> bool" where
  "stop_requested s = stop_state s"

text \<open>Modelled from the spec: \<open>request_stop\<close>, absent from \<open>src/\<close>, called on the
  \<open>Thread\<close> or on the stop source \<open>get_stop_source\<close> returned, sets the shared flag;
  nothing clears it.\<close>

definition request_stop :: "('h, 's) execution \<Rightarrow> ('h, 's) execution" where
  "request_stop s = s\<lparr> stop_state := True \<rparr>"

text \<open>One step of a callable: the loop test reads the token and enters the body or
  leaves the loop, the body returns to the test, the rest runs and returns.\<close>

definition step :: "'s callable \<Rightarrow> ('h, 's) execution \<Rightarrow> ('h, 's) execution" where
  "step c s =
     (case pc s of
        at_test \<Rightarrow> if \<not> stop_requested s then s\<lparr> pc := at_body \<rparr> else s\<lparr> pc := at_rest \<rparr>
      | at_body \<Rightarrow> s\<lparr> vars := loop_body c (vars s), pc := at_test \<rparr>
      | at_rest \<Rightarrow> s\<lparr> vars := after_loop c (vars s), pc := at_return \<rparr>
      | at_return \<Rightarrow> s)"

text \<open>Modelled from the spec: constructing a \<open>Thread\<close> from a callable, absent from
  \<open>src/\<close>, starts a thread of execution with handle \<open>h\<close> at the callable's loop
  test, its variables at their initial values \<open>v\<close> and no stop requested.\<close>

definition started :: "'h \<Rightarrow> 's \<Rightarrow> ('h, 's) execution" where
  "started h v = \<lparr> owner = \<lparr> handle = Some h \<rparr>, stop_state = False, pc = at_test, vars = v \<rparr>"

text \<open>
  The two threads interleave: a schedule lists, in order, the steps of the callable
  and the stop requests of the owning thread, made on the \<open>Thread\<close> itself or on its
  stop source.
\<close>

datatype event = Step | Thread_request_stop | Source_request_stop

fun occur :: "'s callable \<Rightarrow> event \<Rightarrow> ('h, 's) execution \<Rightarrow> ('h, 's) execution" where
  "occur c Step s = step c s"
| "occur c Thread_request_stop s = request_stop s"
| "occur c Source_request_stop s = request_stop s"

fun run :: "'s callable \<Rightarrow> event list \<Rightarrow> ('h, 's) execution \<Rightarrow> ('h, 's) execution" where
  "run c [] s = s"
| "run c (e # es) s = run c es (occur c e s)"

text \<open>The steps a callable still needs to reach its return once a stop has been
  requested, by program point.\<close>

fun steps_to_return :: "program_point \<Rightarrow> nat" where
  "steps_to_return at_body = 3"
| "steps_to_return at_test = 2"
| "steps_to_return at_rest = 1"
| "steps_to_return at_return = 0"

section \<open>Thread::id comparisons\<close>

text \<open>
  C5.  The comparison operators the header defines: for all ids \<open>a\<close> and \<open>b\<close>,
  \<open>a == b\<close> holds exactly when the native values are equal; \<open>!=\<close>, \<open><\<close>, \<open>>\<close>, \<open><=\<close>
  and \<open>>=\<close> agree with the order of the native values; \<open><\<close> is irreflexive and
  transitive, the other operators are the ones it induces, and exactly one of
  \<open>a < b\<close>, \<open>a == b\<close>, \<open>a > b\<close> holds; two default-constructed ids compare equal.
  The C++20 branch, whose \<open>operator<=>\<close> is ill-formed, is not covered.
\<close>

theorem id_comparisons_total_order:
  fixes a b c :: "'a::linorder id"
  shows "(id_eq a b \<longleftrightarrow> id_val a = id_val b)
    \<and> (id_ne a b \<longleftrightarrow> id_val a \<noteq> id_val b)
    \<and> (id_lt a b \<longleftrightarrow> id_val a < id_val b)
    \<and> (id_gt a b \<longleftrightarrow> id_val a > id_val b)
    \<and> (id_le a b \<longleftrightarrow> id_val a \<le> id_val b)
    \<and> (id_ge a b \<longleftrightarrow> id_val a \<ge> id_val b)
    \<and> \<not> id_lt a a
    \<and> (id_lt a b \<and> id_lt b c \<longrightarrow> id_lt a c)
    \<and> (id_ne a b \<longleftrightarrow> id_lt a b \<or> id_gt a b)
    \<and> (id_gt a b \<longleftrightarrow> id_lt b a)
    \<and> (id_le a b \<longleftrightarrow> id_lt a b \<or> id_eq a b)
    \<and> (id_ge a b \<longleftrightarrow> id_gt a b \<or> id_eq a b)
    \<and> ((id_lt a b \<and> \<not> id_eq a b \<and> \<not> id_gt a b)
       \<or> (id_eq a b \<and> \<not> id_lt a b \<and> \<not> id_gt a b)
       \<or> (id_gt a b \<and> \<not> id_lt a b \<and> \<not> id_eq a b))
    \<and> id_eq (id_default :: 'b::{zero,linorder} id) id_default"
  by (auto simp: id_eq_def id_ne_def id_lt_def id_gt_def id_le_def id_ge_def id_default_def)

theorem id_comparisons_total_order_witness:
  "id_lt (Thread_id (1::32 word)) (Thread_id 2) \<and> id_lt (Thread_id (2::32 word)) (Thread_id 3)
   \<and> id_lt (Thread_id (1::32 word)) (Thread_id 3)
   \<and> id_eq (id_default :: 64 word id) id_default"
  using id_comparisons_total_order
    [of "Thread_id (1::32 word)" "Thread_id 2" "Thread_id 3", where ?'b = "64 word"]
  by (simp add: id_lt_def)

section \<open>this_thread::get_priority\<close>

lemma get_priority_throws:
  "(\<exists>e. get_priority m p last_error = Inl e) \<longleftrightarrow> p = THREAD_PRIORITY_ERROR_RETURN m"
  by (simp add: get_priority_def)

lemma get_priority_named:
  assumes "p \<noteq> THREAD_PRIORITY_ERROR_RETURN m" and "priority_value m q = p"
  shows "\<exists>r. get_priority m p last_error = Inr r \<and> priority_value m r = p"
  using assms by (cases q) (auto simp: get_priority_def)

lemma get_priority_clamps:
  assumes "p \<noteq> THREAD_PRIORITY_ERROR_RETURN m" and "\<forall>r. priority_value m r \<noteq> p"
  shows "get_priority m p last_error = Inr (if sint p < 0 then IDLE else TIME_CRITICAL)"
proof -
  have "p \<noteq> priority_value m r" for r
    using assms(2) by metis
  from this [of IDLE] this [of LOWEST] this [of LOW] this [of NORMAL]
    this [of HIGH] this [of HIGHEST] this [of TIME_CRITICAL] assms(1)
  show ?thesis
    by (simp add: get_priority_def word_sless_alt)
qed

lemma winbase_values:
  "priority_value winbase r = p \<longleftrightarrow>
     (r = IDLE \<and> p = - 15) \<or> (r = LOWEST \<and> p = - 2) \<or> (r = LOW \<and> p = - 1)
     \<or> (r = NORMAL \<and> p = 0) \<or> (r = HIGH \<and> p = 1) \<or> (r = HIGHEST \<and> p = 2)
     \<or> (r = TIME_CRITICAL \<and> p = 15)"
  by (cases r) (auto simp: winbase_def)

text \<open>
  C9.  \<open>get_priority\<close> throws exactly when the OS reports
  \<open>THREAD_PRIORITY_ERROR_RETURN\<close>.  For every other native value \<open>p\<close>: when some
  enumerator \<open>q\<close> has the value \<open>p\<close>, the result is an enumerator with that value;
  when none has, the result is \<open>IDLE\<close> for a negative \<open>p\<close> and \<open>TIME_CRITICAL\<close>
  otherwise.  This holds for any values of the eight macros.
\<close>

theorem get_priority_cases:
  "((\<exists>e. get_priority m p last_error = Inl e) \<longleftrightarrow> p = THREAD_PRIORITY_ERROR_RETURN m)
   \<and> (p \<noteq> THREAD_PRIORITY_ERROR_RETURN m \<and> priority_value m q = p
        \<longrightarrow> (\<exists>r. get_priority m p last_error = Inr r \<and> priority_value m r = p))
   \<and> (p \<noteq> THREAD_PRIORITY_ERROR_RETURN m \<and> (\<forall>r. priority_value m r \<noteq> p)
        \<longrightarrow> get_priority m p last_error = Inr (if sint p < 0 then IDLE else TIME_CRITICAL))"
  using get_priority_throws get_priority_named get_priority_clamps by blast

text \<open>With the macro values of the Windows SDK: the error value, a named level and
  the two clamped sides.\<close>

theorem get_priority_cases_witness:
  "(\<exists>e. get_priority winbase 0x7FFFFFFF 5 = Inl e)
   \<and> get_priority winbase 1 0 = Inr HIGH
   \<and> get_priority winbase (- 7) 0 = Inr IDLE
   \<and> get_priority winbase 7 0 = Inr TIME_CRITICAL"
proof -
  have a: "(1::32 word) \<noteq> THREAD_PRIORITY_ERROR_RETURN winbase \<and> priority_value winbase HIGH = 1"
    by (simp add: winbase_def)
  have b: "(- 7::32 word) \<noteq> THREAD_PRIORITY_ERROR_RETURN winbase
      \<and> (\<forall>r. priority_value winbase r \<noteq> - 7)"
    by (simp add: winbase_values) (simp add: winbase_def)
  have c: "(7::32 word) \<noteq> THREAD_PRIORITY_ERROR_RETURN winbase
      \<and> (\<forall>r. priority_value winbase r \<noteq> 7)"
    by (simp add: winbase_values) (simp add: winbase_def)
  have d: "(0x7FFFFFFF::32 word) = THREAD_PRIORITY_ERROR_RETURN winbase"
    by (simp add: winbase_def)
  from a b c d
    get_priority_cases [of winbase "0x7FFFFFFF" 5]
    get_priority_cases [of winbase 1 0 HIGH]
    get_priority_cases [of winbase "- 7" 0]
    get_priority_cases [of winbase 7 0]
  show ?thesis
    by (auto simp: winbase_values)
qed

section \<open>this_thread::sleep\<close>

lemma no_word_above_max: "\<not> (0xFFFFFFFF :: 32 word) < x"
proof -
  have "(0xFFFFFFFF :: 32 word) = - 1" by simp
  then show ?thesis by (simp only: word_order.extremum_strict not_False_eq_True)
qed

lemma sleep_Windows: "sleep Windows ms_sleep = Inr (Sleep ms_sleep)"
  by (simp add: sleep_def no_word_above_max)

lemma sleep_Linux:
  "sleep Linux ms_sleep = Inr (nanosleep \<lparr> tv_sec = ucast (ms_sleep div 1000),
                                 tv_nsec = ucast ((ms_sleep mod 1000000) * 1000) \<rparr>)"
  by (simp add: sleep_def max_sleep_def no_word_above_max)

lemma sleep_never_throws: "sleep pf ms_sleep \<noteq> Inl e"
  by (cases pf) (simp_all add: sleep_Windows sleep_Linux)

text \<open>
  C3.  The code where it departs from the claim.  On Windows \<open>0xFFFFFFFF\<close> is
  greater than \<open>max_sleep\<close>, yet \<open>sleep\<close> does not throw and calls
  \<open>Sleep(0xFFFFFFFF)\<close>.  On Linux \<open>sleep(10)\<close>, within \<open>max_sleep\<close>, calls
  \<open>nanosleep\<close> with 0 seconds and 10000 nanoseconds: 10 microseconds, not 10
  milliseconds.
\<close>

theorem sleep_at_failing_inputs:
  "max_sleep Windows < 0xFFFFFFFF \<and> sleep Windows 0xFFFFFFFF = Inr (Sleep 0xFFFFFFFF)
   \<and> 10 \<le> max_sleep Linux
   \<and> sleep Linux 10 = Inr (nanosleep \<lparr> tv_sec = 0, tv_nsec = 10000 \<rparr>)"
  by (simp add: sleep_Windows sleep_Linux max_sleep_def)

section \<open>this_thread::sleep_for\<close>

lemma sleep_for_throw:
  assumes "sint (duration_cast_ms rel_time) < 0 \<or> 4294967295 < sint (duration_cast_ms rel_time)"
  shows "sleep_for pf rel_time = Inl (system_error invalid_argument
           ''this_thread::sleep_for: Value was negative or too large!'')"
  using assms by (simp add: sleep_for_def Let_def word_sless_alt)

lemma static_cast_ms:
  fixes ms :: "64 word"
  assumes "0 \<le> sint ms" and "sint ms \<le> 4294967295"
  shows "uint (ucast ms :: ms_type) = sint ms"
proof -
  have "sint ms < 2 ^ 64"
    using assms(2) by simp
  with assms(1) have "uint ms = sint ms"
    by (simp add: uint_sint take_bit_int_eq_self)
  moreover have "uint (ucast ms :: ms_type) = take_bit 32 (uint ms)"
    by (simp add: unsigned_ucast_eq)
  ultimately show ?thesis
    using assms by (simp add: take_bit_int_eq_self)
qed

lemma sleep_for_pass:
  assumes "0 \<le> sint (duration_cast_ms rel_time)"
    and "sint (duration_cast_ms rel_time) \<le> 4294967295"
  shows "sleep_for pf rel_time = sleep pf (ucast (duration_cast_ms rel_time))"
  using assms by (simp add: sleep_for_def Let_def word_sless_alt not_less [symmetric])

text \<open>
  C6.  \<open>sleep_for(rel_time)\<close> throws exactly when \<open>rel_time\<close> cast to whole
  milliseconds, read as the signed 64-bit integer it is, is negative or greater
  than 4294967295, the largest \<open>uint32_t\<close>; it then throws \<open>invalid_argument\<close> and no
  OS call is made, so nothing changes.  Otherwise it is \<open>sleep\<close> called with that
  count of milliseconds.
\<close>

theorem sleep_for_throws_iff:
  "((\<exists>e. sleep_for pf rel_time = Inl e)
      \<longleftrightarrow> sint (duration_cast_ms rel_time) < 0 \<or> 4294967295 < sint (duration_cast_ms rel_time))
   \<and> (sint (duration_cast_ms rel_time) < 0 \<or> 4294967295 < sint (duration_cast_ms rel_time)
        \<longrightarrow> sleep_for pf rel_time = Inl (system_error invalid_argument
               ''this_thread::sleep_for: Value was negative or too large!'')
          \<and> effect os (sleep_for pf rel_time) w = w)
   \<and> (0 \<le> sint (duration_cast_ms rel_time) \<and> sint (duration_cast_ms rel_time) \<le> 4294967295
        \<longrightarrow> (\<exists>ms :: ms_type. uint ms = sint (duration_cast_ms rel_time)
               \<and> sleep_for pf rel_time = sleep pf ms))"
proof (intro conjI impI iffI)
  assume "\<exists>e. sleep_for pf rel_time = Inl e"
  then obtain e where e: "sleep_for pf rel_time = Inl e" ..
  show "sint (duration_cast_ms rel_time) < 0 \<or> 4294967295 < sint (duration_cast_ms rel_time)"
  proof (rule ccontr)
    assume "\<not> ?thesis"
    then have "sleep_for pf rel_time = sleep pf (ucast (duration_cast_ms rel_time))"
      by (intro sleep_for_pass) simp_all
    with e show False by (simp add: sleep_never_throws)
  qed
next
  assume "sint (duration_cast_ms rel_time) < 0 \<or> 4294967295 < sint (duration_cast_ms rel_time)"
  from sleep_for_throw [OF this] show "\<exists>e. sleep_for pf rel_time = Inl e" by blast
next
  assume "sint (duration_cast_ms rel_time) < 0 \<or> 4294967295 < sint (duration_cast_ms rel_time)"
  from sleep_for_throw [OF this]
  show "sleep_for pf rel_time = Inl (system_error invalid_argument
               ''this_thread::sleep_for: Value was negative or too large!'')" .
  then show "effect os (sleep_for pf rel_time) w = w" by simp
next
  assume "0 \<le> sint (duration_cast_ms rel_time) \<and> sint (duration_cast_ms rel_time) \<le> 4294967295"
  then have *: "0 \<le> sint (duration_cast_ms rel_time)" "sint (duration_cast_ms rel_time) \<le> 4294967295"
    by simp_all
  from sleep_for_pass [OF *] static_cast_ms [OF *]
  show "\<exists>ms :: ms_type. uint ms = sint (duration_cast_ms rel_time) \<and> sleep_for pf rel_time = sleep pf ms"
    by blast
qed

text \<open>
  The cast at the durations of the witness: one second; minus 500 microseconds,
  truncated to zero; minus one millisecond; \<open>2 ^ 32\<close> milliseconds; \<open>2 ^ 61 + 1\<close>
  seconds, whose product with 1000 wraps around to 1000; and \<open>2 ^ 64 - 1\<close> unsigned
  milliseconds, which read as a signed integer is \<open>- 1\<close>.
\<close>

lemma cast_examples:
  "duration_cast_ms \<lparr>count = 1, period_num = 1, period_den = 1, unsigned_rep = False\<rparr> = 1000"
  "duration_cast_ms \<lparr>count = - 500, period_num = 1, period_den = 1000000, unsigned_rep = False\<rparr> = 0"
  "duration_cast_ms \<lparr>count = - 1, period_num = 1, period_den = 1000, unsigned_rep = False\<rparr> = - 1"
  "duration_cast_ms \<lparr>count = 4294967296, period_num = 1, period_den = 1000, unsigned_rep = False\<rparr>
     = 4294967296"
  "duration_cast_ms \<lparr>count = 2305843009213693953, period_num = 1, period_den = 1,
     unsigned_rep = False\<rparr> = 1000"
  "duration_cast_ms \<lparr>count = 18446744073709551615, period_num = 1, period_den = 1000,
     unsigned_rep = True\<rparr> = - 1"
  by (simp_all add: duration_cast_ms_def signed_div_def signed_divide_int_def)

theorem sleep_for_throws_iff_witness:
  "sleep_for Windows \<lparr>count = 1, period_num = 1, period_den = 1, unsigned_rep = False\<rparr>
     = Inr (Sleep 1000)
   \<and> sleep_for Windows \<lparr>count = - 500, period_num = 1, period_den = 1000000, unsigned_rep = False\<rparr>
     = Inr (Sleep 0)
   \<and> sleep_for Windows \<lparr>count = 2305843009213693953, period_num = 1, period_den = 1,
        unsigned_rep = False\<rparr> = Inr (Sleep 1000)
   \<and> sleep_for Linux \<lparr>count = - 1, period_num = 1, period_den = 1000, unsigned_rep = False\<rparr>
       = Inl (system_error invalid_argument ''this_thread::sleep_for: Value was negative or too large!'')
   \<and> sleep_for Linux \<lparr>count = 4294967296, period_num = 1, period_den = 1000, unsigned_rep = False\<rparr>
       = Inl (system_error invalid_argument ''this_thread::sleep_for: Value was negative or too large!'')
   \<and> sleep_for Linux \<lparr>count = 18446744073709551615, period_num = 1, period_den = 1000,
        unsigned_rep = True\<rparr>
       = Inl (system_error invalid_argument ''this_thread::sleep_for: Value was negative or too large!'')"
proof -
  have u: "uint (ms :: ms_type) = 1000 \<longleftrightarrow> ms = 1000" "uint ms = 0 \<longleftrightarrow> ms = 0" for ms
    by (simp_all add: word_uint_eq_iff)
  from sleep_for_throws_iff [where pf = Windows and os = "\<lambda>c w. w" and w = "()" and rel_time =
      "\<lparr>count = 1, period_num = 1, period_den = 1, unsigned_rep = False\<rparr>"]
    sleep_for_throws_iff [where pf = Windows and os = "\<lambda>c w. w" and w = "()" and rel_time =
      "\<lparr>count = - 500, period_num = 1, period_den = 1000000, unsigned_rep = False\<rparr>"]
    sleep_for_throws_iff [where pf = Windows and os = "\<lambda>c w. w" and w = "()" and rel_time =
      "\<lparr>count = 2305843009213693953, period_num = 1, period_den = 1, unsigned_rep = False\<rparr>"]
    sleep_for_throws_iff [where pf = Linux and os = "\<lambda>c w. w" and w = "()" and rel_time =
      "\<lparr>count = - 1, period_num = 1, period_den = 1000, unsigned_rep = False\<rparr>"]
    sleep_for_throws_iff [where pf = Linux and os = "\<lambda>c w. w" and w = "()" and rel_time =
      "\<lparr>count = 4294967296, period_num = 1, period_den = 1000, unsigned_rep = False\<rparr>"]
    sleep_for_throws_iff [where pf = Linux and os = "\<lambda>c w. w" and w = "()" and rel_time =
      "\<lparr>count = 18446744073709551615, period_num = 1, period_den = 1000, unsigned_rep = True\<rparr>"]
  show ?thesis
    unfolding cast_examples by (auto simp: u sleep_Windows)
qed

section \<open>this_thread::sleep_until\<close>

text \<open>
  C8.  \<open>sleep_until(abs_time)\<close> is \<open>sleep_for(abs_time - Clock::now())\<close> with the
  clock read at the call: the same result, a throw exactly when that \<open>sleep_for\<close>
  throws, and the same OS call.
\<close>

theorem sleep_until_is_sleep_for:
  "sleep_until pf now abs_time = sleep_for pf (time_point_minus abs_time now)
   \<and> ((\<exists>e. sleep_until pf now abs_time = Inl e)
        \<longleftrightarrow> (\<exists>e. sleep_for pf (time_point_minus abs_time now) = Inl e))
   \<and> effect os (sleep_until pf now abs_time) w
        = effect os (sleep_for pf (time_point_minus abs_time now)) w"
  by (simp add: sleep_until_def)

text \<open>Two seconds on a clock read at 500 milliseconds: the difference is taken in
  milliseconds and 1500 of them are slept.\<close>

lemma sleep_until_example:
  "sleep_until Windows \<lparr>count = 500, period_num = 1, period_den = 1000, unsigned_rep = False\<rparr>
     \<lparr>count = 2, period_num = 1, period_den = 1, unsigned_rep = False\<rparr> = Inr (Sleep 1500)"
  by code_simp

section \<open>this_thread::set_name\<close>

text \<open>
  C7.  On Linux \<open>set_name(name)\<close> throws \<open>invalid_argument\<close> for a name of more than
  15 characters and makes no OS call, so the thread name is unchanged; for a name of
  at most 15 characters it makes the single call \<open>pthread_setname_np\<close> on the
  characters of \<open>name\<close> and their terminating null.
\<close>

theorem set_name_length_check:
  "(length name > 15
      \<longrightarrow> set_name name = Inl (system_error invalid_argument
             ''this_thread::set_name: Linux only supports 15 chars followed by NULL for name'')
        \<and> effect os (set_name name) w = w)
   \<and> (length name \<le> 15
      \<longrightarrow> set_name name = Inr (pthread_setname_np (name @ [NUL]))
        \<and> effect os (set_name name) w = os (pthread_setname_np (name @ [NUL])) w)"
  by (simp add: set_name_def c_str_def)

theorem set_name_length_check_witness:
  "set_name ''main_thread'' = Inr (pthread_setname_np (''main_thread'' @ [NUL]))
   \<and> set_name ''0123456789abcdef'' = Inl (system_error invalid_argument
             ''this_thread::set_name: Linux only supports 15 chars followed by NULL for name'')
   \<and> effect (\<lambda>c w. case c of pthread_setname_np n \<Rightarrow> n | _ \<Rightarrow> w) (set_name ''0123456789abcdef'') ''old'' = ''old''
   \<and> effect (\<lambda>c w. case c of pthread_setname_np n \<Rightarrow> n | _ \<Rightarrow> w) (set_name ''0123456789abcde'') ''old''
        = ''0123456789abcde'' @ [NUL]"
  using set_name_length_check [where name = "''main_thread''" and os = "\<lambda>c w. case c of pthread_setname_np n \<Rightarrow> n | _ \<Rightarrow> w" and w = "''old''"]
    set_name_length_check [where name = "''0123456789abcdef''" and os = "\<lambda>c w. case c of pthread_setname_np n \<Rightarrow> n | _ \<Rightarrow> w" and w = "''old''"]
    set_name_length_check [where name = "''0123456789abcde''" and os = "\<lambda>c w. case c of pthread_setname_np n \<Rightarrow> n | _ \<Rightarrow> w" and w = "''old''"]
  by simp

section \<open>this_thread::to_wide and this_thread::from_wide\<close>













section \<open>class Thread\<close>

lemma work_funpow_tick: "work ((tick ^^ n) w) h = work w h - n"
  by (induction n arbitrary: w) (simp_all add: tick_def funpow_swap1)

lemma terminated_funpow_tick: "terminated ((tick ^^ n) w) = terminated w"
  by (induction n arbitrary: w) (simp_all add: tick_def funpow_swap1)

lemma wait_ticks: "wait h w = (tick ^^ work w h) w"
proof (induction h w rule: wait.induct)
  case (1 h w)
  show ?case
  proof (cases "work w h = 0")
    case True
    then show ?thesis by (simp add: wait.simps [of h w])
  next
    case False
    then obtain n where n: "work w h = Suc n"
      by (cases "work w h") auto
    then have "work (tick w) h = n"
      by (simp add: tick_def)
    with "1.IH" [OF False] have "wait h (tick w) = (tick ^^ n) (tick w)"
      by simp
    with False n show ?thesis
      by (simp add: wait.simps [of h w] funpow_swap1)
  qed
qed

text \<open>
  C1.  Destroying a joinable \<open>Thread\<close> joins it: the destructor returns the world
  \<open>join\<close> returns, reached after exactly as many ticks as the owned thread of
  execution had steps left, so that thread has completed and had not completed at
  any earlier tick; the program is not terminated.  Destroying a \<open>Thread\<close> that is
  not joinable changes nothing.
\<close>

theorem destroy_joins:
  "(joinable t \<longrightarrow>
      (\<exists>h. handle t = Some h
         \<and> join t w = Some (Thread_default, destroy t w)
         \<and> destroy t w = (tick ^^ work w h) w
         \<and> work (destroy t w) h = 0
         \<and> (\<forall>n. n < work w h \<longrightarrow> work ((tick ^^ n) w) h \<noteq> 0))
      \<and> terminated (destroy t w) = terminated w)
   \<and> (\<not> joinable t \<longrightarrow> destroy t w = w)"
proof (intro conjI impI)
  assume j: "joinable t"
  then obtain h where h: "handle t = Some h"
    by (auto simp: joinable_def)
  with j have d: "destroy t w = wait h w"
    by (simp add: destroy_def join_def)
  have "join t w = Some (Thread_default, destroy t w)"
    using h d by (simp add: join_def)
  moreover have "destroy t w = (tick ^^ work w h) w"
    using d by (simp add: wait_ticks)
  moreover have "work (destroy t w) h = 0"
    using d by (simp add: wait_ticks work_funpow_tick)
  moreover have "\<forall>n. n < work w h \<longrightarrow> work ((tick ^^ n) w) h \<noteq> 0"
    by (simp add: work_funpow_tick)
  ultimately show "\<exists>h. handle t = Some h
         \<and> join t w = Some (Thread_default, destroy t w)
         \<and> destroy t w = (tick ^^ work w h) w
         \<and> work (destroy t w) h = 0
         \<and> (\<forall>n. n < work w h \<longrightarrow> work ((tick ^^ n) w) h \<noteq> 0)"
    using h by blast
  show "terminated (destroy t w) = terminated w"
    using d by (simp add: wait_ticks terminated_funpow_tick)
next
  assume "\<not> joinable t"
  then show "destroy t w = w"
    by (simp add: destroy_def)
qed

theorem destroy_joins_witness:
  "work (destroy \<lparr>handle = Some (2::nat)\<rparr> \<lparr>work = (\<lambda>h. 5 * h), terminated = False\<rparr>) 2 = 0
   \<and> work (destroy \<lparr>handle = Some (2::nat)\<rparr> \<lparr>work = (\<lambda>h. 5 * h), terminated = False\<rparr>) 3 = 5
   \<and> \<not> terminated (destroy \<lparr>handle = Some (2::nat)\<rparr> \<lparr>work = (\<lambda>h. 5 * h), terminated = False\<rparr>)
   \<and> destroy \<lparr>handle = None\<rparr> \<lparr>work = (\<lambda>h::nat. 5 * h), terminated = False\<rparr>
       = \<lparr>work = (\<lambda>h. 5 * h), terminated = False\<rparr>"
proof -
  have a: "joinable \<lparr>handle = Some (2::nat)\<rparr>" and b: "\<not> joinable \<lparr>handle = (None :: nat option)\<rparr>"
    by (simp_all add: joinable_def)
  from a b
    destroy_joins [of "\<lparr>handle = Some (2::nat)\<rparr>" "\<lparr>work = (\<lambda>h. 5 * h), terminated = False\<rparr>"]
    destroy_joins [of "\<lparr>handle = (None :: nat option)\<rparr>" "\<lparr>work = (\<lambda>h. 5 * h), terminated = False\<rparr>"]
  show ?thesis
    by (auto simp: work_funpow_tick)
qed

lemma owner_occur: "owner (occur c e s) = owner s"
  by (cases e) (simp_all add: request_stop_def step_def split: program_point.splits)

lemma owner_run: "owner (run c es s) = owner s"
  by (induction es arbitrary: s) (simp_all add: owner_occur)

lemma stop_state_occur: "stop_state s \<Longrightarrow> stop_state (occur c e s)"
  by (cases e) (simp_all add: request_stop_def step_def split: program_point.splits)

lemma stop_state_run: "stop_state s \<Longrightarrow> stop_state (run c es s)"
  by (induction es arbitrary: s) (simp_all add: stop_state_occur)

lemma passes_occur:
  assumes "pc s = at_return \<longrightarrow> (\<exists>n. vars s = after_loop c ((loop_body c ^^ n) v))"
    and "pc s \<noteq> at_return \<longrightarrow> (\<exists>n. vars s = (loop_body c ^^ n) v)"
  shows "pc (occur c e s) = at_return
           \<longrightarrow> (\<exists>n. vars (occur c e s) = after_loop c ((loop_body c ^^ n) v))"
    and "pc (occur c e s) \<noteq> at_return \<longrightarrow> (\<exists>n. vars (occur c e s) = (loop_body c ^^ n) v)"
proof -
  show "pc (occur c e s) = at_return
           \<longrightarrow> (\<exists>n. vars (occur c e s) = after_loop c ((loop_body c ^^ n) v))"
    using assms by (cases e; cases "pc s") (auto simp: request_stop_def step_def)
  show "pc (occur c e s) \<noteq> at_return \<longrightarrow> (\<exists>n. vars (occur c e s) = (loop_body c ^^ n) v)"
  proof (cases "e = Step \<and> pc s = at_body")
    case True
    with assms(2) obtain n where "vars s = (loop_body c ^^ n) v"
      by auto
    then have "vars (occur c e s) = (loop_body c ^^ Suc n) v"
      using True by (simp add: step_def)
    then show ?thesis by blast
  next
    case False
    then show ?thesis
      using assms(2) by (cases e; cases "pc s") (auto simp: request_stop_def step_def)
  qed
qed

lemma passes_run:
  assumes "pc s = at_return \<longrightarrow> (\<exists>n. vars s = after_loop c ((loop_body c ^^ n) v))"
    and "pc s \<noteq> at_return \<longrightarrow> (\<exists>n. vars s = (loop_body c ^^ n) v)"
  shows "pc (run c es s) = at_return
           \<longrightarrow> (\<exists>n. vars (run c es s) = after_loop c ((loop_body c ^^ n) v))"
  using assms
proof (induction es arbitrary: s)
  case Nil
  then show ?case by simp
next
  case (Cons e es)
  from passes_occur [OF Cons.prems, of e] Cons.IH [of "occur c e s"]
  show ?case by simp
qed

lemma passes_started:
  "pc (run c es (started h v)) = at_return
     \<longrightarrow> (\<exists>n. vars (run c es (started h v)) = after_loop c ((loop_body c ^^ n) v))"
proof (rule passes_run)
  show "pc (started h v) = at_return
          \<longrightarrow> (\<exists>n. vars (started h v) = after_loop c ((loop_body c ^^ n) v))"
    by (simp add: started_def)
  have "vars (started h v) = (loop_body c ^^ 0) v"
    by (simp add: started_def)
  then show "pc (started h v) \<noteq> at_return \<longrightarrow> (\<exists>n. vars (started h v) = (loop_body c ^^ n) v)"
    by blast
qed

lemma steps_to_return_occur:
  assumes "stop_state s"
  shows "steps_to_return (pc (occur c e s))
           = steps_to_return (pc s) - (if e = Step then 1 else 0)"
  using assms by (cases e; cases "pc s") (simp_all add: request_stop_def step_def stop_requested_def)

lemma steps_to_return_run:
  "stop_state s \<Longrightarrow>
     steps_to_return (pc (run c es s)) = steps_to_return (pc s) - count_list es Step"
proof (induction es arbitrary: s)
  case Nil
  then show ?case by simp
next
  case (Cons e es)
  from Cons.prems have "stop_state (occur c e s)"
    by (rule stop_state_occur)
  from Cons.IH [OF this] steps_to_return_occur [OF Cons.prems, of c e]
  show ?case by simp
qed

lemma steps_to_return_bound: "steps_to_return p \<le> 3"
  by (cases p) simp_all

lemma steps_to_return_0: "steps_to_return p = 0 \<longleftrightarrow> p = at_return"
  by (cases p) simp_all

lemma unrequested_loops:
  "\<not> stop_state s \<Longrightarrow> pc s \<in> {at_test, at_body} \<Longrightarrow> set es \<subseteq> {Step}
     \<Longrightarrow> \<not> stop_state (run c es s) \<and> pc (run c es s) \<in> {at_test, at_body}"
proof (induction es arbitrary: s)
  case Nil
  then show ?case by simp
next
  case (Cons e es)
  then have e: "e = Step" by simp
  have "\<not> stop_state (occur c e s) \<and> pc (occur c e s) \<in> {at_test, at_body}"
    using Cons.prems(1,2) e by (auto simp: step_def stop_requested_def)
  with Cons.IH [of "occur c e s"] Cons.prems(3) show ?case by simp
qed

text \<open>
  C4.  For a \<open>Thread\<close> constructed from any callable with a cooperative loop, whatever
  its body, the statements after its loop and its variables, and at whatever point
  of any schedule \<open>request_stop\<close> is called, on the \<open>Thread\<close> or on its stop source:
  \<open>stop_requested()\<close> is true at once and stays true; once the callable has taken
  three more steps it has left its loop, run the statements after it on the
  variables some number of passes through the body produced, and returned; and the
  \<open>Thread\<close> is still joinable.  As long as no stop is requested the callable does not
  return.
\<close>

theorem request_stop_ends_loop:
  "request \<noteq> Step \<longrightarrow>
     stop_requested (occur c request (run c before (started h v)))
     \<and> stop_requested (run c after (occur c request (run c before (started h v))))
     \<and> (3 \<le> count_list after Step \<longrightarrow>
          pc (run c after (occur c request (run c before (started h v)))) = at_return
          \<and> (\<exists>n. vars (run c after (occur c request (run c before (started h v))))
                 = after_loop c ((loop_body c ^^ n) v)))
     \<and> joinable (owner (run c after (occur c request (run c before (started h v)))))
     \<and> (set before \<subseteq> {Step} \<longrightarrow> pc (run c before (started h v)) \<noteq> at_return)"
proof
  assume r: "request \<noteq> Step"
  let ?s = "occur c request (run c before (started h v))"
  have run_all: "run c after ?s = run c (before @ request # after) (started h v)" for after
  proof -
    have "run c (xs @ ys) s = run c ys (run c xs s)" for xs ys and s :: "('a, 'b) execution"
      by (induction xs arbitrary: s) simp_all
    then show ?thesis by simp
  qed
  have req: "stop_state ?s"
    using r by (cases request) (simp_all add: request_stop_def)
  have "stop_requested ?s"
    using req by (simp add: stop_requested_def)
  moreover have "stop_requested (run c after ?s)"
    using stop_state_run [OF req] by (simp add: stop_requested_def)
  moreover have "pc (run c after ?s) = at_return
      \<and> (\<exists>n. vars (run c after ?s) = after_loop c ((loop_body c ^^ n) v))"
    if "3 \<le> count_list after Step"
  proof -
    have "steps_to_return (pc (run c after ?s)) = 0"
      using steps_to_return_run [OF req, of c after] steps_to_return_bound [of "pc ?s"] that
      by simp
    then have "pc (run c after ?s) = at_return"
      by (simp add: steps_to_return_0)
    with passes_started [of c "before @ request # after" h v] show ?thesis
      by (simp add: run_all)
  qed
  moreover have "joinable (owner (run c after ?s))"
    by (simp add: owner_run owner_occur started_def joinable_def)
  moreover have "pc (run c before (started h v)) \<noteq> at_return" if "set before \<subseteq> {Step}"
    using unrequested_loops [of "started h v" before c] that
    by (auto simp: started_def)
  ultimately show "stop_requested ?s
     \<and> stop_requested (run c after ?s)
     \<and> (3 \<le> count_list after Step \<longrightarrow>
          pc (run c after ?s) = at_return
          \<and> (\<exists>n. vars (run c after ?s) = after_loop c ((loop_body c ^^ n) v)))
     \<and> joinable (owner (run c after ?s))
     \<and> (set before \<subseteq> {Step} \<longrightarrow> pc (run c before (started h v)) \<noteq> at_return)"
    by blast
qed

text \<open>
  The lambda of \<open>TEST(Thread, StopToken)\<close> with \<open>stopped\<close> initially false, the stop
  requested on the stop source after three steps: three steps later the lambda has
  returned and \<open>stopped\<close> is true.  A callable that counts its passes, the stop
  requested on the \<open>Thread\<close>: it returns as well.
\<close>

theorem request_stop_ends_loop_witness:
  "pc (run stoppable [Step, Step, Step]
        (occur stoppable Source_request_stop
          (run stoppable [Step, Step, Step] (started (1::nat) False)))) = at_return
   \<and> vars (run stoppable [Step, Step, Step]
        (occur stoppable Source_request_stop
          (run stoppable [Step, Step, Step] (started (1::nat) False))))
   \<and> pc (run stoppable [Step, Step, Step] (started (1::nat) False)) \<noteq> at_return
   \<and> pc (run \<lparr>loop_body = Suc, after_loop = (\<lambda>n. n)\<rparr> [Step, Step, Step]
        (occur \<lparr>loop_body = Suc, after_loop = (\<lambda>n. n)\<rparr> Thread_request_stop
          (run \<lparr>loop_body = Suc, after_loop = (\<lambda>n. n)\<rparr> [Step, Step] (started (1::nat) 0))))
       = at_return"
proof -
  have a: "3 \<le> count_list [Step, Step, Step] Step" and b: "set [Step, Step, Step] \<subseteq> {Step}"
    and c: "Source_request_stop \<noteq> Step" and d: "Thread_request_stop \<noteq> Step"
    by simp_all
  from a b c d
    request_stop_ends_loop [where request = Source_request_stop and c = stoppable
      and before = "[Step, Step, Step]" and after = "[Step, Step, Step]" and h = "1::nat"
      and v = False]
    request_stop_ends_loop [where request = Thread_request_stop
      and c = "\<lparr>loop_body = Suc, after_loop = (\<lambda>n. n)\<rparr>"
      and before = "[Step, Step]" and after = "[Step, Step, Step]" and h = "1::nat"
      and v = "0::nat"]
  show ?thesis
    by (auto simp: stoppable_def)
qed

end
